theory Spec2Isabelle
  imports Complex_Main "HOL-Library.Sublist"
begin

section \<open>Python values held by the session\<close>

text \<open>
  The script keeps its whole state in \<^verbatim>\<open>st.session_state\<close>, whose slots hold
  whatever Python object was last assigned: the widgets assign strings and floats, the
  import assigns whatever \<^verbatim>\<open>json.loads\<close> produced, the load assigns whatever the
  document store returned. The values are therefore modelled untyped, as the objects
  JSON decoding can produce, plus the timestamp object the document store hands back.
  A dict is an association list in insertion order, looked up with \<open>map_of\<close>.
  A float is modelled by the number it denotes; the script never computes with one.
\<close>

datatype pyval =
    PNone
  | PBool bool
  | PInt int
  | PFloat real
  | PStr string
  | PList "pyval list"
  | PDict "(string \<times> pyval) list"
  | PTimestamp nat

datatype py_exc =
    TypeError
  | KeyError
  | AttributeError
  | ValueError
  | UnicodeDecodeError

text \<open>Python truthiness, as used by \<^verbatim>\<open>if x:\<close> and \<^verbatim>\<open>not x\<close>.\<close>

fun truthy :: "pyval \<Rightarrow> bool" where
  "truthy PNone = False"
| "truthy (PBool b) = b"
| "truthy (PInt i) = (i \<noteq> 0)"
| "truthy (PFloat r) = (r \<noteq> 0)"
| "truthy (PStr s) = (s \<noteq> [])"
| "truthy (PList xs) = (xs \<noteq> [])"
| "truthy (PDict kvs) = (kvs \<noteq> [])"
| "truthy (PTimestamp t) = True"

text \<open>\<^verbatim>\<open>needle in haystack\<close> on two strings: the substring test.\<close>

fun starts_with :: "string \<Rightarrow> string \<Rightarrow> bool" where
  "starts_with [] hay = True"
| "starts_with (c # cs) [] = False"
| "starts_with (c # cs) (h # hs) = (c = h \<and> starts_with cs hs)"

fun str_contains :: "string \<Rightarrow> string \<Rightarrow> bool" where
  "str_contains needle [] = (needle = [])"
| "str_contains needle (h # hs) = (starts_with needle (h # hs) \<or> str_contains needle hs)"

text \<open>
  \<^verbatim>\<open>key in obj\<close> for a string key: key membership on a dict, element membership on
  a list, the substring test on a string, and \<^verbatim>\<open>TypeError\<close> (argument is not
  iterable) on everything else.
\<close>

fun py_contains :: "string \<Rightarrow> pyval \<Rightarrow> py_exc + bool" where
  "py_contains k (PDict kvs) = Inr (map_of kvs k \<noteq> None)"
| "py_contains k (PList xs) = Inr (PStr k \<in> set xs)"
| "py_contains k (PStr s) = Inr (str_contains k s)"
| "py_contains k v = Inl TypeError"

text \<open>
  \<^verbatim>\<open>obj[key]\<close> for a string key: the value on a dict (\<^verbatim>\<open>KeyError\<close> when absent),
  \<^verbatim>\<open>TypeError\<close> on a list or a string (indices must be integers) and on the values
  that are not subscriptable.
\<close>

fun py_getitem :: "pyval \<Rightarrow> string \<Rightarrow> py_exc + pyval" where
  "py_getitem (PDict kvs) k = (case map_of kvs k of None \<Rightarrow> Inl KeyError | Some v \<Rightarrow> Inr v)"
| "py_getitem v k = Inl TypeError"

text \<open>
  \<^verbatim>\<open>obj.get(key, default)\<close>: only a dict has the method; any other value raises
  \<^verbatim>\<open>AttributeError\<close>.
\<close>

fun py_get :: "pyval \<Rightarrow> string \<Rightarrow> pyval \<Rightarrow> py_exc + pyval" where
  "py_get (PDict kvs) k dflt = Inr (case map_of kvs k of None \<Rightarrow> dflt | Some v \<Rightarrow> v)"
| "py_get v k dflt = Inl AttributeError"

section \<open>Session state\<close>

record session_state =
  story_history :: pyval
  current_mode :: pyval
  temperature :: pyval
  tone :: pyval
  user_id :: string

text \<open>The state of a fresh session: the defaults, and the identifier minted for it.\<close>

definition initial_session :: "string \<Rightarrow> session_state" where
  "initial_session uid =
     \<lparr>story_history = PList [],
      current_mode = PStr ''censored'',
      temperature = PFloat 0.7,
      tone = PStr ''Fantasy'',
      user_id = uid\<rparr>"

section \<open>The settings widgets\<close>

text \<open>
  The position each select box is given for its current value. The mode box computes
  \<^verbatim>\<open>0 if current_mode == 'censored' else 1\<close>; the tone box calls \<^verbatim>\<open>list.index\<close>,
  which raises \<^verbatim>\<open>ValueError\<close> for a value that is not in the list.
\<close>

definition mode_options :: "pyval list" where
  "mode_options = [PStr ''censored'', PStr ''uncensored'']"

definition tone_options :: "pyval list" where
  "tone_options =
     [PStr ''Fantasy'', PStr ''Sci-Fi'', PStr ''Horror'', PStr ''Mystery'', PStr ''Comedy'',
      PStr ''Historical'']"

fun list_index :: "pyval list \<Rightarrow> pyval \<Rightarrow> py_exc + nat" where
  "list_index [] x = Inl ValueError"
| "list_index (y # ys) x =
     (if y = x then Inr 0
      else (case list_index ys x of Inl e \<Rightarrow> Inl e | Inr i \<Rightarrow> Inr (Suc i)))"

definition mode_selector_index :: "session_state \<Rightarrow> nat" where
  "mode_selector_index st = (if current_mode st = PStr ''censored'' then 0 else 1)"

definition tone_selector_index :: "session_state \<Rightarrow> py_exc + nat" where
  "tone_selector_index st = list_index tone_options (tone st)"

section \<open>Import of a transcript\<close>

text \<open>
  What the import form shows after \<^verbatim>\<open>Process Import\<close>:
  \<^item> \<open>ImportSuccess\<close>: "Story and settings imported successfully!";
  \<^item> \<open>InvalidJsonFormat\<close>: "Invalid JSON format. Please upload a file with 'history'
    and 'settings' keys.";
  \<^item> \<open>InvalidJsonFile\<close>: "Invalid JSON file. Please upload a valid JSON file.", the
    handler of \<^verbatim>\<open>json.JSONDecodeError\<close>;
  \<^item> \<open>ImportFailed e\<close>: "Error importing story: ...", the handler of every other
    exception \<open>e\<close>.
\<close>

datatype import_notice =
    ImportSuccess
  | InvalidJsonFormat
  | InvalidJsonFile
  | ImportFailed py_exc

text \<open>
  The assignments of the import, one definition per statement, each continuing with
  the next. An exception leaves the assignments made before it in place: the state
  returned with \<open>ImportFailed\<close> is the state at the point of the raise.
  Each settings statement reads \<^verbatim>\<open>imported_data["settings"]\<close> again, as the source
  does, and falls back to the slot's current value.
\<close>

definition assign_tone :: "session_state \<Rightarrow> pyval \<Rightarrow> import_notice \<times> session_state" where
  "assign_tone st imported_data =
     (case py_getitem imported_data ''settings'' of
        Inl e \<Rightarrow> (ImportFailed e, st)
      | Inr settings \<Rightarrow>
          (case py_get settings ''tone'' (tone st) of
             Inl e \<Rightarrow> (ImportFailed e, st)
           | Inr v \<Rightarrow> (ImportSuccess, st\<lparr>tone := v\<rparr>)))"

definition assign_temperature :: "session_state \<Rightarrow> pyval \<Rightarrow> import_notice \<times> session_state" where
  "assign_temperature st imported_data =
     (case py_getitem imported_data ''settings'' of
        Inl e \<Rightarrow> (ImportFailed e, st)
      | Inr settings \<Rightarrow>
          (case py_get settings ''temperature'' (temperature st) of
             Inl e \<Rightarrow> (ImportFailed e, st)
           | Inr v \<Rightarrow> assign_tone (st\<lparr>temperature := v\<rparr>) imported_data))"

definition assign_current_mode :: "session_state \<Rightarrow> pyval \<Rightarrow> import_notice \<times> session_state" where
  "assign_current_mode st imported_data =
     (case py_getitem imported_data ''settings'' of
        Inl e \<Rightarrow> (ImportFailed e, st)
      | Inr settings \<Rightarrow>
          (case py_get settings ''current_mode'' (current_mode st) of
             Inl e \<Rightarrow> (ImportFailed e, st)
           | Inr v \<Rightarrow> assign_temperature (st\<lparr>current_mode := v\<rparr>) imported_data))"

definition assign_story_history :: "session_state \<Rightarrow> pyval \<Rightarrow> import_notice \<times> session_state" where
  "assign_story_history st imported_data =
     (case py_getitem imported_data ''history'' of
        Inl e \<Rightarrow> (ImportFailed e, st)
      | Inr v \<Rightarrow> assign_current_mode (st\<lparr>story_history := v\<rparr>) imported_data)"

text \<open>
  The body of the \<^verbatim>\<open>try\<close> block once the file has been decoded and parsed: the
  test for the two keys (\<^verbatim>\<open>and\<close> evaluates its second operand only when the first
  holds), then the assignments or the format error.
\<close>

definition import_data :: "session_state \<Rightarrow> pyval \<Rightarrow> import_notice \<times> session_state" where
  "import_data st imported_data =
     (case py_contains ''history'' imported_data of
        Inl e \<Rightarrow> (ImportFailed e, st)
      | Inr False \<Rightarrow> (InvalidJsonFormat, st)
      | Inr True \<Rightarrow>
          (case py_contains ''settings'' imported_data of
             Inl e \<Rightarrow> (ImportFailed e, st)
           | Inr False \<Rightarrow> (InvalidJsonFormat, st)
           | Inr True \<Rightarrow> assign_story_history st imported_data))"

text \<open>
  The form handler. The uploaded bytes are decoded as UTF-8 and parsed by
  \<^verbatim>\<open>json.loads\<close>; both are library calls and are taken as parameters:
  \<open>utf8_decode\<close> returns \<open>None\<close> where \<^verbatim>\<open>bytes.decode\<close> raises
  \<^verbatim>\<open>UnicodeDecodeError\<close>, \<open>json_loads\<close> returns \<open>None\<close> where the parser raises
  \<^verbatim>\<open>JSONDecodeError\<close>. Nothing happens unless the button was pressed with a file
  selected.
\<close>

definition import_form ::
  "('b \<Rightarrow> string option) \<Rightarrow> (string \<Rightarrow> pyval option) \<Rightarrow> bool \<Rightarrow> 'b option \<Rightarrow>
   session_state \<Rightarrow> import_notice option \<times> session_state" where
  "import_form utf8_decode json_loads submit_button uploaded_file st =
     (case uploaded_file of
        None \<Rightarrow> (None, st)
      | Some bytes \<Rightarrow>
          if \<not> submit_button then (None, st)
          else
            (case utf8_decode bytes of
               None \<Rightarrow> (Some (ImportFailed UnicodeDecodeError), st)
             | Some file_content \<Rightarrow>
                 (case json_loads file_content of
                    None \<Rightarrow> (Some InvalidJsonFile, st)
                  | Some imported_data \<Rightarrow>
                      (let (notice, st') = import_data st imported_data
                       in (Some notice, st')))))"

section \<open>Export of a transcript\<close>

text \<open>
  The dictionary built for the export: the history, the three settings under
  \<^verbatim>\<open>settings\<close>, and the session's identifier.
\<close>

definition export_data :: "session_state \<Rightarrow> pyval" where
  "export_data st =
     PDict [(''history'', story_history st),
            (''settings'', PDict [(''current_mode'', current_mode st),
                                  (''temperature'', temperature st),
                                  (''tone'', tone st)]),
            (''exported_from_user_id'', PStr (user_id st))]"

text \<open>
  The export column: with a non-empty history the dictionary is serialised by
  \<^verbatim>\<open>json.dumps\<close> (a parameter; \<open>None\<close> where it raises \<^verbatim>\<open>TypeError\<close> on an
  object that is not serialisable, which nothing catches) and offered for download;
  with an empty history the button is disabled and nothing is offered.
\<close>

definition json_for_export ::
  "(pyval \<Rightarrow> string option) \<Rightarrow> session_state \<Rightarrow> py_exc + string option" where
  "json_for_export json_dumps st =
     (if truthy (story_history st) then
        (case json_dumps (export_data st) of
           None \<Rightarrow> Inl TypeError
         | Some text \<Rightarrow> Inr (Some text))
      else Inr None)"

section \<open>Prompt construction\<close>

text \<open>
  \<^verbatim>\<open>str.upper()\<close> is Python's Unicode-aware uppercasing, a library function that
  may change any character and the length of the string. It is taken as the parameter
  \<open>upper\<close> wherever a sender is rendered.
\<close>

text \<open>
  Interpolation \<^verbatim>\<open>{v}\<close> in an f-string: a string is inserted as it is; for any
  other object Python inserts \<^verbatim>\<open>str(v)\<close>, taken as the parameter \<open>str_of\<close>.
\<close>

fun py_format :: "(pyval \<Rightarrow> string) \<Rightarrow> pyval \<Rightarrow> string" where
  "py_format str_of (PStr s) = s"
| "py_format str_of v = str_of v"

text \<open>
  The slice \<^verbatim>\<open>xs[start:]\<close>: a negative start counts from the end, and a start
  beyond either end is clipped.
\<close>

definition py_slice_from :: "int \<Rightarrow> 'a list \<Rightarrow> 'a list" where
  "py_slice_from start xs =
     (let n = int (length xs);
          s = (if start < 0 then max (start + n) 0 else min start n)
      in drop (nat s) xs)"

text \<open>The system prompt that opens the context.\<close>

definition system_prompt :: "(pyval \<Rightarrow> string) \<Rightarrow> pyval \<Rightarrow> string" where
  "system_prompt str_of tone_v =
     ''You are an AI Dungeon Master. '' @
     ''The story's tone is: '' @ py_format str_of tone_v @ ''. '' @
     ''Generate the next part of the fantasy story based on the following conversation:'' @
     [CHR 0x0A, CHR 0x0A]"

text \<open>
  One line of the context, \<^verbatim>\<open>f"{msg['sender'].upper()}: {msg['text']}\n"\<close>.
  \<^verbatim>\<open>msg['sender']\<close> is evaluated first; \<^verbatim>\<open>.upper()\<close> exists on strings only.
\<close>

definition context_line ::
  "(string \<Rightarrow> string) \<Rightarrow> (pyval \<Rightarrow> string) \<Rightarrow> pyval \<Rightarrow> py_exc + string" where
  "context_line upper str_of msg =
     (case py_getitem msg ''sender'' of
        Inl e \<Rightarrow> Inl e
      | Inr (PStr sender) \<Rightarrow>
          (case py_getitem msg ''text'' of
             Inl e \<Rightarrow> Inl e
           | Inr text \<Rightarrow>
               Inr (upper sender @ '': '' @ py_format str_of text @ [CHR 0x0A]))
      | Inr _ \<Rightarrow> Inl AttributeError)"

text \<open>The loop over the recent messages, appending one line per message.\<close>

fun append_messages ::
  "(string \<Rightarrow> string) \<Rightarrow> (pyval \<Rightarrow> string) \<Rightarrow> string \<Rightarrow> pyval list \<Rightarrow> py_exc + string" where
  "append_messages upper str_of full_context [] = Inr full_context"
| "append_messages upper str_of full_context (msg # msgs) =
     (case context_line upper str_of msg of
        Inl e \<Rightarrow> Inl e
      | Inr line \<Rightarrow> append_messages upper str_of (full_context @ line) msgs)"

text \<open>
  The whole context for a history that is a list: the system prompt, the last ten
  messages, and the closing \<^verbatim>\<open>AI:\<close>.
\<close>

definition full_context ::
  "(string \<Rightarrow> string) \<Rightarrow> (pyval \<Rightarrow> string) \<Rightarrow> pyval \<Rightarrow> pyval list \<Rightarrow> py_exc + string" where
  "full_context upper str_of tone_v history =
     (case append_messages upper str_of (system_prompt str_of tone_v) (py_slice_from (- 10) history) of
        Inl e \<Rightarrow> Inl e
      | Inr ctx \<Rightarrow> Inr (ctx @ ''AI:''))"

section \<open>The generation call\<close>

text \<open>
  The two model instances differ in their safety settings only. They exist when the API
  key is set and the client library accepted the configuration (\<open>configured\<close>, the
  outcome of the library calls); otherwise both are \<^verbatim>\<open>None\<close>.
\<close>

datatype safety_threshold = BLOCK_MEDIUM_AND_ABOVE | BLOCK_NONE

datatype gemini_model = GenerativeModel string safety_threshold

record gemini_models =
  gemini_model_censored :: "gemini_model option"
  gemini_model_uncensored :: "gemini_model option"

definition configure_gemini :: "string option \<Rightarrow> bool \<Rightarrow> gemini_models" where
  "configure_gemini GOOGLE_API_KEY configured =
     (if GOOGLE_API_KEY \<noteq> None \<and> GOOGLE_API_KEY \<noteq> Some [] then
        (if configured then
           \<lparr>gemini_model_censored =
              Some (GenerativeModel ''gemini-1.5-flash-latest'' BLOCK_MEDIUM_AND_ABOVE),
            gemini_model_uncensored =
              Some (GenerativeModel ''gemini-1.5-flash-latest'' BLOCK_NONE)\<rparr>
         else \<lparr>gemini_model_censored = None, gemini_model_uncensored = None\<rparr>)
      else \<lparr>gemini_model_censored = None, gemini_model_uncensored = None\<rparr>)"

text \<open>
  The provider is outside the program. A call \<^verbatim>\<open>generate_content(prompt,
  generation_config={"temperature": t})\<close> on a model either raises, with \<^verbatim>\<open>str(e)\<close>
  the carried text (this covers an attribute of the response that raises when read),
  or returns a response: possibly a falsy one (\<open>None\<close>), otherwise an object whose
  \<^verbatim>\<open>text\<close> attribute is absent or a string, and whose \<^verbatim>\<open>prompt_feedback\<close> is absent
  or falsy (\<open>None\<close>) or carries the name of a block reason.
\<close>

record response =
  response_text :: "string option"
  block_reason_name :: "string option"

datatype provider_outcome = Raises string | Returns "response option"

type_synonym provider = "gemini_model \<Rightarrow> string \<Rightarrow> pyval \<Rightarrow> provider_outcome"

text \<open>
  What a call of \<^verbatim>\<open>generate_gemini_response\<close> amounts to: the string it returns,
  the provider calls it made, and the error boxes it displayed with \<^verbatim>\<open>st.error\<close>.
\<close>

record generation =
  reply :: string
  provider_calls :: "(gemini_model \<times> string \<times> pyval) list"
  errors_shown :: "string list"

definition quoted :: "string \<Rightarrow> string" where
  "quoted s = [CHR 0x27] @ s @ [CHR 0x27]"

text \<open>The handler of an exception raised inside the \<^verbatim>\<open>try\<close> block.\<close>

definition on_exception ::
  "string \<Rightarrow> (gemini_model \<times> string \<times> pyval) list \<Rightarrow> string \<Rightarrow> generation" where
  "on_exception mode_s calls error_message =
     (if str_contains ''404'' error_message \<and> str_contains ''models/gemini-pro'' error_message then
        \<lparr>reply = ''AI (Gemini '' @ mode_s @ '') API Error: Model 'gemini-pro' not found or accessible. '' @
                 ''Ensure Generative Language API is enabled in your Google Cloud Project '' @
                 ''and your GOOGLE_API_KEY is correct and has the necessary permissions.'',
         provider_calls = calls, errors_shown = []\<rparr>
      else if str_contains ''403'' error_message then
        \<lparr>reply = ''AI (Gemini '' @ mode_s @
                 '') API Error: Permission denied. Check your GOOGLE_API_KEY and its permissions.'',
         provider_calls = calls, errors_shown = []\<rparr>
      else if str_contains ''500'' error_message then
        \<lparr>reply = ''AI (Gemini '' @ mode_s @
                 '') API Error: Internal server error. Please try again later.'',
         provider_calls = calls, errors_shown = []\<rparr>
      else
        \<lparr>reply = ''AI (Gemini '' @ mode_s @ '') encountered an error: '' @ error_message,
         provider_calls = calls,
         errors_shown = [''Error calling Gemini API for '' @ quoted mode_s @ '' mode: '' @
                         error_message]\<rparr>)"

definition selected_model :: "gemini_models \<Rightarrow> pyval \<Rightarrow> gemini_model option" where
  "selected_model models mode =
     (if mode = PStr ''censored'' then gemini_model_censored models
      else if mode = PStr ''uncensored'' then gemini_model_uncensored models
      else None)"

definition generate_gemini_response ::
  "(pyval \<Rightarrow> string) \<Rightarrow> gemini_models \<Rightarrow> provider \<Rightarrow> string \<Rightarrow> pyval \<Rightarrow> pyval \<Rightarrow> generation" where
  "generate_gemini_response str_of models generate_content prompt temperature_v mode =
     (let mode_s = py_format str_of mode in
      case selected_model models mode of
        None \<Rightarrow>
          \<lparr>reply = ''Error: Gemini API for '' @ quoted mode_s @
                   '' mode is not configured. Check your GOOGLE_API_KEY.'',
           provider_calls = [], errors_shown = []\<rparr>
      | Some model \<Rightarrow>
          (let calls = [(model, prompt, temperature_v)] in
           case generate_content model prompt temperature_v of
             Raises error_message \<Rightarrow> on_exception mode_s calls error_message
           | Returns None \<Rightarrow>
               \<lparr>reply = ''AI returned an empty or unreadable response.'',
                provider_calls = calls, errors_shown = []\<rparr>
           | Returns (Some r) \<Rightarrow>
               (if response_text r \<noteq> None \<and> response_text r \<noteq> Some [] then
                  \<lparr>reply = the (response_text r), provider_calls = calls, errors_shown = []\<rparr>
                else if block_reason_name r \<noteq> None then
                  \<lparr>reply = ''AI response was blocked by safety settings. Reason: '' @
                           the (block_reason_name r),
                   provider_calls = calls, errors_shown = []\<rparr>
                else
                  \<lparr>reply = ''AI returned an empty or unreadable response.'',
                   provider_calls = calls, errors_shown = []\<rparr>)))"

section \<open>Submitting a turn\<close>

definition message :: "string \<Rightarrow> string \<Rightarrow> pyval" where
  "message sender_s text_s = PDict [(''sender'', PStr sender_s), (''text'', PStr text_s)]"

text \<open>
  The block run when the chat input delivers a prompt (\<open>None\<close>: nothing was
  submitted). \<^verbatim>\<open>append\<close> is a list method, so a history that is not a list raises
  \<^verbatim>\<open>AttributeError\<close> at the first statement. Nothing in the block catches an
  exception: the script run ends there, and the result carries the exception with the
  state as it stood.
\<close>

definition submit_turn ::
  "(string \<Rightarrow> string) \<Rightarrow> (pyval \<Rightarrow> string) \<Rightarrow> gemini_models \<Rightarrow> provider \<Rightarrow> string option \<Rightarrow> session_state \<Rightarrow>
   py_exc option \<times> session_state" where
  "submit_turn upper str_of models generate_content user_prompt st =
     (case user_prompt of
        None \<Rightarrow> (None, st)
      | Some p \<Rightarrow>
          if p = [] then (None, st)
          else
            (case story_history st of
               PList msgs \<Rightarrow>
                 (let msgs1 = msgs @ [message ''user'' p];
                      st1 = st\<lparr>story_history := PList msgs1\<rparr>
                  in case full_context upper str_of (tone st1) msgs1 of
                       Inl e \<Rightarrow> (Some e, st1)
                     | Inr ctx \<Rightarrow>
                         (let ai_response_text =
                                reply (generate_gemini_response str_of models generate_content ctx
                                         (temperature st1) (current_mode st1))
                          in (None, st1\<lparr>story_history :=
                                          PList (msgs1 @ [message ''ai'' ai_response_text])\<rparr>)))
             | _ \<Rightarrow> (Some AttributeError, st)))"

section \<open>The document store\<close>

text \<open>
  The program reaches the store through the Firestore client, which is not part of it.
  One document is kept per session, under the path ending in the session's identifier;
  the store is modelled as a map from that identifier to the document's fields. A
  written field is either a value or the sentinel \<^verbatim>\<open>SERVER_TIMESTAMP\<close>. A backend
  that cannot be reached, or that refuses the caller, raises on every call
  (\<open>failure\<close> carries the text of the exception). \<open>requests\<close> records the calls
  the backend received, in order.
\<close>

datatype write_value = Value pyval | SERVER_TIMESTAMP

datatype store_request =
    GetRequest string
  | SetRequest string "(string \<times> write_value) list" bool

record firestore =
  documents :: "string \<rightharpoonup> (string \<rightharpoonup> pyval)"
  server_time :: nat
  failure :: "string option"
  requests :: "store_request list"

text \<open>
  Modelled from the spec: server-side timestamp assignment by the document store, which
  is outside the sources. The store, not the caller, determines the value written for
  the sentinel: its own time.
\<close>

fun resolve :: "nat \<Rightarrow> write_value \<Rightarrow> pyval" where
  "resolve now (Value v) = v"
| "resolve now SERVER_TIMESTAMP = PTimestamp now"

definition written_fields :: "nat \<Rightarrow> (string \<times> write_value) list \<Rightarrow> (string \<rightharpoonup> pyval)" where
  "written_fields now data = map_of (map (\<lambda>(k, v). (k, resolve now v)) data)"

text \<open>
  Modelled from the spec: the document store's \<^verbatim>\<open>set\<close>, which is outside the
  sources. The specification describes a keyed document set with merge-write semantics:
  a merge-write "updates only the supplied fields, leaving others untouched", and
  fields present in the new write replace the same-named fields. Without the merge flag
  the document is replaced by the written fields.
\<close>

definition document_set ::
  "firestore \<Rightarrow> string \<Rightarrow> (string \<times> write_value) list \<Rightarrow> bool \<Rightarrow> (string + unit) \<times> firestore" where
  "document_set fs path data merge =
     (let fs1 = fs\<lparr>requests := requests fs @ [SetRequest path data merge]\<rparr> in
      case failure fs of
        Some err \<Rightarrow> (Inl err, fs1)
      | None \<Rightarrow>
          (let old = (case documents fs path of None \<Rightarrow> Map.empty | Some d \<Rightarrow> d);
               base = (if merge then old else Map.empty)
           in (Inr (),
               fs1\<lparr>documents := (documents fs)(path \<mapsto> base ++ written_fields (server_time fs) data)\<rparr>)))"

text \<open>
  Modelled from the spec: the document store's \<^verbatim>\<open>get\<close>, which is outside the
  sources: the keyed document read, returning the stored fields or the absence of a
  document.
\<close>

definition document_get ::
  "firestore \<Rightarrow> string \<Rightarrow> (string + (string \<rightharpoonup> pyval) option) \<times> firestore" where
  "document_get fs path =
     (let fs1 = fs\<lparr>requests := requests fs @ [GetRequest path]\<rparr> in
      case failure fs of
        Some err \<Rightarrow> (Inl err, fs1)
      | None \<Rightarrow> (Inr (documents fs path), fs1))"

section \<open>Saving and loading a session\<close>

text \<open>
  What the two functions display:
  \<^item> \<open>CannotSave\<close>: the warning "Cannot save: Firebase not initialized or user ID not
    available.", and \<open>CannotLoad\<close> its counterpart for loading;
  \<^item> \<open>SessionSaved\<close>: "Current session saved successfully to cloud! ...";
  \<^item> \<open>SaveError e\<close>: "Error saving session: e", \<open>LoadError e\<close>: "Error loading
    session: e";
  \<^item> \<open>SessionLoaded\<close>: "Session loaded successfully from cloud!";
  \<^item> \<open>NoSavedSession\<close>: the information "No saved session found for this user ID.".
  Each function returns its boolean, what it displayed, the session state, and the
  store client (\<open>None\<close> when Firebase was not initialised) with the backend behind it.
\<close>

datatype store_notice =
    CannotSave
  | SessionSaved
  | SaveError string
  | CannotLoad
  | SessionLoaded
  | NoSavedSession
  | LoadError string

definition session_data :: "session_state \<Rightarrow> (string \<times> write_value) list" where
  "session_data st =
     [(''history'', Value (story_history st)),
      (''current_mode'', Value (current_mode st)),
      (''temperature'', Value (temperature st)),
      (''tone'', Value (tone st)),
      (''timestamp'', SERVER_TIMESTAMP)]"

definition save_story_to_firestore ::
  "firestore option \<Rightarrow> session_state \<Rightarrow> bool \<times> store_notice \<times> firestore option" where
  "save_story_to_firestore db st =
     (case db of
        None \<Rightarrow> (False, CannotSave, db)
      | Some fs \<Rightarrow>
          if user_id st = [] then (False, CannotSave, db)
          else
            (case document_set fs (user_id st) (session_data st) True of
               (Inl e, fs') \<Rightarrow> (False, SaveError e, Some fs')
             | (Inr u, fs') \<Rightarrow> (True, SessionSaved, Some fs')))"

definition dict_get :: "(string \<rightharpoonup> pyval) \<Rightarrow> string \<Rightarrow> pyval \<Rightarrow> pyval" where
  "dict_get data k dflt = (case data k of None \<Rightarrow> dflt | Some v \<Rightarrow> v)"

definition load_story_from_firestore ::
  "firestore option \<Rightarrow> session_state \<Rightarrow> bool \<times> store_notice \<times> session_state \<times> firestore option" where
  "load_story_from_firestore db st =
     (case db of
        None \<Rightarrow> (False, CannotLoad, st, db)
      | Some fs \<Rightarrow>
          if user_id st = [] then (False, CannotLoad, st, db)
          else
            (case document_get fs (user_id st) of
               (Inl e, fs') \<Rightarrow> (False, LoadError e, st, Some fs')
             | (Inr None, fs') \<Rightarrow> (False, NoSavedSession, st, Some fs')
             | (Inr (Some data), fs') \<Rightarrow>
                 (True, SessionLoaded,
                  st\<lparr>story_history := dict_get data ''history'' (PList []),
                     current_mode := dict_get data ''current_mode'' (PStr ''censored''),
                     temperature := dict_get data ''temperature'' (PFloat 0.7),
                     tone := dict_get data ''tone'' (PStr ''Fantasy'')\<rparr>,
                  Some fs')))"

section \<open>The conversation log as the specification describes it\<close>

text \<open>
  The specification's Turn has a sender and a text; the program stores a turn as the
  dictionary \<^verbatim>\<open>{"sender": ..., "text": ...}\<close>. \<open>last_turns\<close> and \<open>turn_line\<close>
  follow the specification's wording of the prompt: the last \<open>n\<close> turns, all of them
  when fewer exist, each rendered as the uppercased sender (by the uppercasing
  function \<open>upper\<close>), a colon and a space, the text, and a line break.
\<close>

record turn =
  turn_sender :: string
  turn_text :: string

definition turn_value :: "turn \<Rightarrow> pyval" where
  "turn_value t = message (turn_sender t) (turn_text t)"

definition last_turns :: "nat \<Rightarrow> 'a list \<Rightarrow> 'a list" where
  "last_turns n turns = (if length turns < n then turns else drop (length turns - n) turns)"

definition turn_line :: "(string \<Rightarrow> string) \<Rightarrow> turn \<Rightarrow> string" where
  "turn_line upper t = upper (turn_sender t) @ '': '' @ turn_text t @ [CHR 0x0A]"

text \<open>
  A stored message the context loop can render: a dictionary with a string under
  \<^verbatim>\<open>sender\<close> and some value under \<^verbatim>\<open>text\<close>.
\<close>

fun well_formed_message :: "pyval \<Rightarrow> bool" where
  "well_formed_message (PDict kvs) =
     (case map_of kvs ''sender'' of
        Some (PStr s) \<Rightarrow> map_of kvs ''text'' \<noteq> None
      | _ \<Rightarrow> False)"
| "well_formed_message v = False"

section \<open>Concrete inputs used in the examples\<close>

text \<open>
  The welcome message the script seeds an empty history with, and stand-ins for the
  parameters: the uppercasing of the two senders the program itself writes,
  \<^verbatim>\<open>"user".upper()\<close> and \<^verbatim>\<open>"ai".upper()\<close>, which is all the examples apply it
  to; a \<open>str\<close> that is never consulted where only strings are interpolated;
  a provider that refuses every call with a permission error, one whose error text
  mentions several status codes, providers that answer with a text, with a block
  reason, with nothing, and with a server error, the session left by importing a
  transcript whose history is an empty object, a serialiser and a parser that know one transcript
  and one other document, and stores: an empty one, one without a connection, and one
  that already holds documents with a field the program does not write.
\<close>

definition welcome_message :: pyval where
  "welcome_message = message ''ai'' ''Welcome, adventurer! What quest shall we embark on today?''"

definition welcomed_session :: session_state where
  "welcomed_session = (initial_session ''u1'')\<lparr>story_history := PList [welcome_message]\<rparr>"

definition example_upper :: "string \<Rightarrow> string" where
  "example_upper s =
     (if s = ''user'' then ''USER'' else if s = ''ai'' then ''AI'' else s)"

definition unused_str :: "pyval \<Rightarrow> string" where
  "unused_str v = []"

definition both_models :: gemini_models where
  "both_models = configure_gemini (Some ''key'') True"

definition refusing_provider :: provider where
  "refusing_provider model prompt temperature_v = Raises ''403 Permission denied''"

definition ambiguous_provider :: provider where
  "ambiguous_provider model prompt temperature_v =
     Raises ''403 Permission denied for models/gemini-pro (request 404)''"

definition storytelling_provider :: provider where
  "storytelling_provider model prompt temperature_v =
     Returns (Some \<lparr>response_text = Some ''You head north.'', block_reason_name = None\<rparr>)"

definition blocking_provider :: provider where
  "blocking_provider model prompt temperature_v =
     Returns (Some \<lparr>response_text = None, block_reason_name = Some ''SAFETY''\<rparr>)"

definition silent_provider :: provider where
  "silent_provider model prompt temperature_v =
     Returns (Some \<lparr>response_text = Some [], block_reason_name = None\<rparr>)"

definition failing_provider :: provider where
  "failing_provider model prompt temperature_v = Raises ''500 Internal error''"

definition emptied_session :: session_state where
  "emptied_session = welcomed_session\<lparr>story_history := PDict []\<rparr>"

definition example_dumps :: "pyval \<Rightarrow> string option" where
  "example_dumps d = (if d = export_data welcomed_session then Some ''transcript'' else None)"

definition example_loads :: "string \<Rightarrow> pyval option" where
  "example_loads file_content =
     (if file_content = ''transcript'' then Some (export_data welcomed_session)
      else if file_content = ''foo'' then Some (PDict [(''foo'', PInt 1)])
      else None)"

definition twelve_turns :: "turn list" where
  "twelve_turns =
     [\<lparr>turn_sender = ''ai'', turn_text = ''t01''\<rparr>, \<lparr>turn_sender = ''user'', turn_text = ''t02''\<rparr>,
      \<lparr>turn_sender = ''ai'', turn_text = ''t03''\<rparr>, \<lparr>turn_sender = ''user'', turn_text = ''t04''\<rparr>,
      \<lparr>turn_sender = ''ai'', turn_text = ''t05''\<rparr>, \<lparr>turn_sender = ''user'', turn_text = ''t06''\<rparr>,
      \<lparr>turn_sender = ''ai'', turn_text = ''t07''\<rparr>, \<lparr>turn_sender = ''user'', turn_text = ''t08''\<rparr>,
      \<lparr>turn_sender = ''ai'', turn_text = ''t09''\<rparr>, \<lparr>turn_sender = ''user'', turn_text = ''t10''\<rparr>,
      \<lparr>turn_sender = ''ai'', turn_text = ''t11''\<rparr>, \<lparr>turn_sender = ''user'', turn_text = ''t12''\<rparr>]"

definition empty_store :: firestore where
  "empty_store = \<lparr>documents = Map.empty, server_time = 100, failure = None, requests = []\<rparr>"

definition unreachable_store :: firestore where
  "unreachable_store = empty_store\<lparr>failure := Some ''503 unavailable''\<rparr>"

definition annotated_store :: firestore where
  "annotated_store =
     \<lparr>documents = [''u1'' \<mapsto> [''notes'' \<mapsto> PStr ''keep'', ''tone'' \<mapsto> PStr ''Horror''],
                   ''u2'' \<mapsto> [''tone'' \<mapsto> PStr ''Comedy'']],
      server_time = 100, failure = None, requests = []\<rparr>"

text \<open>The fields stored under a key, none when the key has no document.\<close>

definition stored :: "firestore \<Rightarrow> string \<Rightarrow> (string \<rightharpoonup> pyval)" where
  "stored fs path = (case documents fs path of None \<Rightarrow> Map.empty | Some d \<Rightarrow> d)"

section \<open>Facts about the building blocks\<close>

text \<open>The substring test is the library's contiguous-sublist relation.\<close>

lemma starts_with_prefix: "starts_with needle hay = prefix needle hay"
  by (induction needle hay rule: starts_with.induct) simp_all

lemma str_contains_sublist: "str_contains needle hay = sublist needle hay"
proof (induction hay)
  case Nil
  then show ?case by simp
next
  case (Cons h hs)
  then show ?case
    by (cases needle) (simp_all add: starts_with_prefix sublist_Cons_right)
qed

lemma py_slice_from_last: "0 < n \<Longrightarrow> py_slice_from (- int n) xs = last_turns n xs"
  by (auto simp: py_slice_from_def last_turns_def Let_def max_def nat_diff_distrib')

lemma py_slice_from_map: "py_slice_from i (map f xs) = map f (py_slice_from i xs)"
  by (simp add: py_slice_from_def Let_def drop_map)

lemma list_all_py_slice_from: "list_all P xs \<Longrightarrow> list_all P (py_slice_from i xs)"
  by (auto simp: py_slice_from_def Let_def list_all_iff dest: in_set_dropD)

lemma example_upper_user: "example_upper ''user'' = ''USER''"
  by (simp add: example_upper_def)

lemma example_upper_ai: "example_upper ''ai'' = ''AI''"
  by (simp add: example_upper_def)

lemma context_line_turn: "context_line upper str_of (turn_value t) = Inr (turn_line upper t)"
  by (simp add: context_line_def turn_value_def message_def turn_line_def)

lemma append_messages_turns:
  "append_messages upper str_of acc (map turn_value ts) = Inr (acc @ concat (map (turn_line upper) ts))"
  by (induction ts arbitrary: acc) (simp_all add: context_line_turn)

lemma context_line_well_formed:
  "well_formed_message m \<Longrightarrow> \<exists>line. context_line upper str_of m = Inr line"
  by (cases m) (auto simp: context_line_def split: option.splits pyval.splits)

lemma append_messages_well_formed:
  "list_all well_formed_message ms \<Longrightarrow> \<exists>ctx. append_messages upper str_of acc ms = Inr ctx"
proof (induction ms arbitrary: acc)
  case Nil
  then show ?case by simp
next
  case (Cons m ms)
  then obtain line where "context_line upper str_of m = Inr line"
    using context_line_well_formed [of m upper str_of] by auto
  with Cons show ?case by simp
qed

lemma full_context_well_formed:
  assumes "list_all well_formed_message ms"
  shows "\<exists>ctx. full_context upper str_of tone_v ms = Inr ctx"
proof -
  from assms have "list_all well_formed_message (py_slice_from (- 10) ms)"
    by (rule list_all_py_slice_from)
  then obtain c where
    "append_messages upper str_of (system_prompt str_of tone_v) (py_slice_from (- 10) ms) = Inr c"
    using append_messages_well_formed by blast
  then show ?thesis by (simp add: full_context_def)
qed

lemma well_formed_message_message: "well_formed_message (message s t)"
  by (simp add: message_def)

lemma submit_turn_step:
  assumes "story_history st = PList msgs" and "p \<noteq> []"
    and "full_context upper str_of (tone st) (msgs @ [message ''user'' p]) = Inr ctx"
  shows "submit_turn upper str_of models generate_content (Some p) st =
    (None, st\<lparr>story_history := PList (msgs @
        [message ''user'' p,
         message ''ai'' (reply (generate_gemini_response str_of models generate_content ctx
                                  (temperature st) (current_mode st)))])\<rparr>)"
  using assms by (simp add: submit_turn_def Let_def)

lemma on_exception_forbidden:
  assumes "str_contains ''403'' error_message"
    and "\<not> (str_contains ''404'' error_message \<and> str_contains ''models/gemini-pro'' error_message)"
  shows "on_exception mode_s calls error_message =
    \<lparr>reply = ''AI (Gemini '' @ mode_s @
             '') API Error: Permission denied. Check your GOOGLE_API_KEY and its permissions.'',
     provider_calls = calls, errors_shown = []\<rparr>"
  using assms by (auto simp: on_exception_def)

lemma generate_raises_forbidden:
  assumes "selected_model models mode = Some model"
    and "generate_content model prompt temperature_v = Raises error_message"
    and "str_contains ''403'' error_message"
    and "\<not> (str_contains ''404'' error_message \<and> str_contains ''models/gemini-pro'' error_message)"
  shows "generate_gemini_response str_of models generate_content prompt temperature_v mode =
    \<lparr>reply = ''AI (Gemini '' @ py_format str_of mode @
             '') API Error: Permission denied. Check your GOOGLE_API_KEY and its permissions.'',
     provider_calls = [(model, prompt, temperature_v)], errors_shown = []\<rparr>"
  using assms by (simp add: generate_gemini_response_def on_exception_forbidden)

lemma generate_unconfigured:
  assumes "selected_model models mode = None"
  shows "reply (generate_gemini_response str_of models generate_content prompt temperature_v mode) =
    ''Error: Gemini API for '' @ quoted (py_format str_of mode) @
    '' mode is not configured. Check your GOOGLE_API_KEY.''"
  using assms by (simp add: generate_gemini_response_def)

lemma on_exception_reply:
  "reply (on_exception mode_s calls e) =
    (if str_contains ''404'' e \<and> str_contains ''models/gemini-pro'' e then
       ''AI (Gemini '' @ mode_s @
       '') API Error: Model 'gemini-pro' not found or accessible. '' @
       ''Ensure Generative Language API is enabled in your Google Cloud Project '' @
       ''and your GOOGLE_API_KEY is correct and has the necessary permissions.''
     else if str_contains ''403'' e then
       ''AI (Gemini '' @ mode_s @
       '') API Error: Permission denied. Check your GOOGLE_API_KEY and its permissions.''
     else if str_contains ''500'' e then
       ''AI (Gemini '' @ mode_s @
       '') API Error: Internal server error. Please try again later.''
     else ''AI (Gemini '' @ mode_s @ '') encountered an error: '' @ e)"
  by (simp add: on_exception_def)

lemma generate_raised:
  assumes "selected_model models mode = Some model"
    and "generate_content model prompt temperature_v = Raises e"
  shows "reply (generate_gemini_response str_of models generate_content prompt temperature_v mode) =
    (if str_contains ''404'' e \<and> str_contains ''models/gemini-pro'' e then
       ''AI (Gemini '' @ py_format str_of mode @
       '') API Error: Model 'gemini-pro' not found or accessible. '' @
       ''Ensure Generative Language API is enabled in your Google Cloud Project '' @
       ''and your GOOGLE_API_KEY is correct and has the necessary permissions.''
     else if str_contains ''403'' e then
       ''AI (Gemini '' @ py_format str_of mode @
       '') API Error: Permission denied. Check your GOOGLE_API_KEY and its permissions.''
     else if str_contains ''500'' e then
       ''AI (Gemini '' @ py_format str_of mode @
       '') API Error: Internal server error. Please try again later.''
     else ''AI (Gemini '' @ py_format str_of mode @ '') encountered an error: '' @ e)"
  using assms by (simp add: generate_gemini_response_def on_exception_reply)

lemma generate_no_response:
  assumes "selected_model models mode = Some model"
    and "generate_content model prompt temperature_v = Returns None"
  shows "reply (generate_gemini_response str_of models generate_content prompt temperature_v mode) =
    ''AI returned an empty or unreadable response.''"
  using assms by (simp add: generate_gemini_response_def)

text \<open>
  What the returned string is when the provider answers without usable text: the block
  message when a block reason is present, the empty-response message otherwise.
\<close>

lemma generate_blocked:
  assumes "selected_model models mode = Some model"
    and "generate_content model prompt temperature_v = Returns (Some r)"
    and "response_text r = None \<or> response_text r = Some []"
    and "block_reason_name r = Some reason"
  shows "reply (generate_gemini_response str_of models generate_content prompt temperature_v mode) =
    ''AI response was blocked by safety settings. Reason: '' @ reason"
  using assms by (auto simp: generate_gemini_response_def)

lemma generate_empty:
  assumes "selected_model models mode = Some model"
    and "generate_content model prompt temperature_v = Returns (Some r)"
    and "response_text r = None \<or> response_text r = Some []"
    and "block_reason_name r = None"
  shows "reply (generate_gemini_response str_of models generate_content prompt temperature_v mode) =
    ''AI returned an empty or unreadable response.''"
  using assms by (auto simp: generate_gemini_response_def)

lemma generate_text:
  assumes "selected_model models mode = Some model"
    and "generate_content model prompt temperature_v = Returns (Some r)"
    and "response_text r = Some t" and "t \<noteq> []"
  shows "reply (generate_gemini_response str_of models generate_content prompt temperature_v mode) = t"
  using assms by (simp add: generate_gemini_response_def)

lemma import_data_object:
  assumes "map_of doc ''history'' = Some h" and "map_of doc ''settings'' = Some (PDict s)"
  shows "import_data st (PDict doc) =
    (ImportSuccess,
     st\<lparr>story_history := h,
        current_mode := (case map_of s ''current_mode'' of None \<Rightarrow> current_mode st | Some v \<Rightarrow> v),
        temperature := (case map_of s ''temperature'' of None \<Rightarrow> temperature st | Some v \<Rightarrow> v),
        tone := (case map_of s ''tone'' of None \<Rightarrow> tone st | Some v \<Rightarrow> v)\<rparr>)"
  using assms
  by (simp add: import_data_def assign_story_history_def assign_current_mode_def
      assign_temperature_def assign_tone_def)








lemma list_index_absent: "x \<notin> set ys \<Longrightarrow> list_index ys x = Inl ValueError"
  by (induction ys) auto

lemma written_fields_session_data:
  "written_fields now (session_data st) =
     [''history'' \<mapsto> story_history st, ''current_mode'' \<mapsto> current_mode st,
      ''temperature'' \<mapsto> temperature st, ''tone'' \<mapsto> tone st,
      ''timestamp'' \<mapsto> PTimestamp now]"
  by (rule ext) (simp add: written_fields_def session_data_def)

section \<open>The prompt sent to the provider\<close>

text \<open>
  Claim C1. For a conversation log of turns and any tone setting, the context built for
  the generation call is exactly the system prompt (the Dungeon Master role and the
  configured tone), then the last ten turns of the log, all of them when there are
  fewer than ten, each on its own line as the sender uppercased by \<^verbatim>\<open>str.upper()\<close>
  (whatever that function yields for the sender), a colon and a space, and the text, in
  log order, then the closing cue \<^verbatim>\<open>AI:\<close>. For a log of twelve turns these are the
  turns from the third on.
\<close>

theorem full_context_last_ten:
  "full_context upper str_of tone_v (map turn_value turns) =
     Inr (''You are an AI Dungeon Master. The story's tone is: '' @ py_format str_of tone_v @
          ''. Generate the next part of the fantasy story based on the following conversation:'' @
          [CHR 0x0A, CHR 0x0A] @
          concat (map (turn_line upper) (last_turns 10 turns)) @
          ''AI:'')
   \<and> (length turns = 12 \<longrightarrow>
        full_context upper str_of tone_v (map turn_value turns) =
          Inr (system_prompt str_of tone_v @ concat (map (turn_line upper) (drop 2 turns)) @ ''AI:''))"
proof -
  have w: "py_slice_from (- 10) (map turn_value turns) = map turn_value (last_turns 10 turns)"
    using py_slice_from_last [of 10 turns] by (simp add: py_slice_from_map)
  have a: "full_context upper str_of tone_v (map turn_value turns) =
      Inr (system_prompt str_of tone_v @ concat (map (turn_line upper) (last_turns 10 turns)) @ ''AI:'')"
    by (simp add: full_context_def w append_messages_turns)
  have b: "length turns = 12 \<Longrightarrow> last_turns 10 turns = drop 2 turns"
    by (simp add: last_turns_def)
  show ?thesis using a b by (simp add: system_prompt_def)
qed

text \<open>A log of twelve turns: the context holds the turns three to twelve.\<close>

theorem full_context_last_ten_witness:
  "length twelve_turns = 12 \<and>
   full_context example_upper unused_str (PStr ''Horror'') (map turn_value twelve_turns) =
     Inr (''You are an AI Dungeon Master. The story's tone is: Horror. '' @
          ''Generate the next part of the fantasy story based on the following conversation:'' @
          [CHR 0x0A, CHR 0x0A] @
          ''AI: t03'' @ [CHR 0x0A] @ ''USER: t04'' @ [CHR 0x0A] @
          ''AI: t05'' @ [CHR 0x0A] @ ''USER: t06'' @ [CHR 0x0A] @
          ''AI: t07'' @ [CHR 0x0A] @ ''USER: t08'' @ [CHR 0x0A] @
          ''AI: t09'' @ [CHR 0x0A] @ ''USER: t10'' @ [CHR 0x0A] @
          ''AI: t11'' @ [CHR 0x0A] @ ''USER: t12'' @ [CHR 0x0A] @
          ''AI:'')"
proof -
  have len: "length twelve_turns = 12"
    by (simp add: twelve_turns_def)
  have built: "full_context example_upper unused_str (PStr ''Horror'') (map turn_value twelve_turns) =
      Inr (system_prompt unused_str (PStr ''Horror'') @
           concat (map (turn_line example_upper) (drop 2 twelve_turns)) @ ''AI:'')"
    using full_context_last_ten [of example_upper unused_str "PStr ''Horror''" twelve_turns] len
    by blast
  have rendered: "system_prompt unused_str (PStr ''Horror'') @
           concat (map (turn_line example_upper) (drop 2 twelve_turns)) @ ''AI:'' =
          ''You are an AI Dungeon Master. The story's tone is: Horror. '' @
          ''Generate the next part of the fantasy story based on the following conversation:'' @
          [CHR 0x0A, CHR 0x0A] @
          ''AI: t03'' @ [CHR 0x0A] @ ''USER: t04'' @ [CHR 0x0A] @
          ''AI: t05'' @ [CHR 0x0A] @ ''USER: t06'' @ [CHR 0x0A] @
          ''AI: t07'' @ [CHR 0x0A] @ ''USER: t08'' @ [CHR 0x0A] @
          ''AI: t09'' @ [CHR 0x0A] @ ''USER: t10'' @ [CHR 0x0A] @
          ''AI: t11'' @ [CHR 0x0A] @ ''USER: t12'' @ [CHR 0x0A] @
          ''AI:''"
    by (simp add: system_prompt_def turn_line_def twelve_turns_def example_upper_user example_upper_ai)
  show ?thesis
    unfolding built rendered using len by simp
qed

section \<open>Export followed by import\<close>

text \<open>
  Claim C2. Importing the transcript document that export builds from a session gives
  back exactly that session's history and its three settings, whatever they are; the
  identifier in the document is not read, and the importing session keeps its own. The
  same holds through the file: when the exported text is what the upload decodes to and
  parsing it gives the exported document back, the import form reports success with
  that history and those settings.
\<close>

theorem export_import_round_trip:
  "import_data cur (export_data st) =
     (ImportSuccess,
      cur\<lparr>story_history := story_history st, current_mode := current_mode st,
          temperature := temperature st, tone := tone st\<rparr>)
   \<and> (json_for_export json_dumps st = Inr (Some file_content) \<longrightarrow>
      utf8_decode bytes = Some file_content \<longrightarrow>
      json_loads file_content = Some (export_data st) \<longrightarrow>
      import_form utf8_decode json_loads True (Some bytes) cur =
        (Some ImportSuccess,
         cur\<lparr>story_history := story_history st, current_mode := current_mode st,
             temperature := temperature st, tone := tone st\<rparr>))"
proof -
  have doc: "import_data cur (export_data st) =
     (ImportSuccess,
      cur\<lparr>story_history := story_history st, current_mode := current_mode st,
          temperature := temperature st, tone := tone st\<rparr>)"
    by (simp add: export_data_def import_data_object)
  then show ?thesis
    by (simp add: import_form_def)
qed

text \<open>
  A session with the welcome message, censored mode, temperature 0.7 and the Fantasy
  tone, exported and imported into another session whose settings differ.
\<close>

theorem export_import_round_trip_witness:
  "json_for_export example_dumps welcomed_session = Inr (Some ''transcript'') \<and>
   Some ''transcript'' = Some ''transcript'' \<and>
   example_loads ''transcript'' = Some (export_data welcomed_session) \<and>
   import_form Some example_loads True (Some ''transcript'')
     \<lparr>story_history = PList [], current_mode = PStr ''uncensored'', temperature = PFloat 0.2,
      tone = PStr ''Horror'', user_id = ''u2''\<rparr> =
     (Some ImportSuccess,
      \<lparr>story_history = PList [welcome_message], current_mode = PStr ''censored'',
       temperature = PFloat 0.7, tone = PStr ''Fantasy'', user_id = ''u2''\<rparr>)"
proof -
  have e: "json_for_export example_dumps welcomed_session = Inr (Some ''transcript'')"
    by (simp add: json_for_export_def example_dumps_def welcomed_session_def)
  have l: "example_loads ''transcript'' = Some (export_data welcomed_session)"
    by (simp add: example_loads_def)
  show ?thesis
    using e l
      export_import_round_trip [of
        "\<lparr>story_history = PList [], current_mode = PStr ''uncensored'', temperature = PFloat 0.2,
          tone = PStr ''Horror'', user_id = ''u2''\<rparr>"
        welcomed_session example_dumps "''transcript''" Some "''transcript''" example_loads]
    by (simp add: welcomed_session_def initial_session_def)
qed

section \<open>A generation that the provider refuses\<close>

text \<open>
  Claim C3, as the program has it. The handler recognises a failure by the text of the
  exception, and tests for the model-not-found text (both "404" and
  "models/gemini-pro") before it tests for "403". When the provider call raises with a
  text that contains "403" and is not the model-not-found text,
  \<^verbatim>\<open>generate_gemini_response\<close> returns the permission-denied message as its
  ordinary result, after exactly one provider call and without displaying an error; it
  raises nothing, and it has no access to the log. The submit action that called it
  then appends the returned message to the log as an AI turn, after the user's turn:
  the log is not left as it was.
\<close>

theorem forbidden_reply_appended:
  assumes "selected_model models (current_mode st) = Some model"
    and "\<And>prompt. generate_content model prompt (temperature st) = Raises error_message"
    and "str_contains ''403'' error_message"
    and "\<not> (str_contains ''404'' error_message \<and> str_contains ''models/gemini-pro'' error_message)"
    and "story_history st = PList msgs"
    and "list_all well_formed_message msgs"
    and "p \<noteq> []"
  shows "(\<forall>prompt.
            generate_gemini_response str_of models generate_content prompt
              (temperature st) (current_mode st) =
            \<lparr>reply = ''AI (Gemini '' @ py_format str_of (current_mode st) @
                     '') API Error: Permission denied. Check your GOOGLE_API_KEY and its permissions.'',
             provider_calls = [(model, prompt, temperature st)], errors_shown = []\<rparr>)
    \<and> submit_turn upper str_of models generate_content (Some p) st =
        (None,
         st\<lparr>story_history := PList (msgs @
            [message ''user'' p,
             message ''ai'' (''AI (Gemini '' @ py_format str_of (current_mode st) @
               '') API Error: Permission denied. Check your GOOGLE_API_KEY and its permissions.'')])\<rparr>)"
proof -
  have g: "generate_gemini_response str_of models generate_content prompt
              (temperature st) (current_mode st) =
            \<lparr>reply = ''AI (Gemini '' @ py_format str_of (current_mode st) @
                     '') API Error: Permission denied. Check your GOOGLE_API_KEY and its permissions.'',
             provider_calls = [(model, prompt, temperature st)], errors_shown = []\<rparr>" for prompt
    using assms(1) assms(2) [of prompt] assms(3,4) by (rule generate_raises_forbidden)
  from assms(6) have "list_all well_formed_message (msgs @ [message ''user'' p])"
    by (simp add: well_formed_message_message)
  then obtain ctx where "full_context upper str_of (tone st) (msgs @ [message ''user'' p]) = Inr ctx"
    using full_context_well_formed by blast
  with assms(5,7) have "submit_turn upper str_of models generate_content (Some p) st =
    (None, st\<lparr>story_history := PList (msgs @
        [message ''user'' p,
         message ''ai'' (reply (generate_gemini_response str_of models generate_content ctx
                                  (temperature st) (current_mode st)))])\<rparr>)"
    by (rule submit_turn_step)
  with g show ?thesis by simp
qed

text \<open>
  The welcomed session in censored mode, both models configured, a provider that
  refuses with "403 Permission denied", and the prompt "go north".
\<close>

theorem forbidden_reply_appended_witness:
  "selected_model both_models (current_mode welcomed_session) =
     Some (GenerativeModel ''gemini-1.5-flash-latest'' BLOCK_MEDIUM_AND_ABOVE) \<and>
   str_contains ''403'' ''403 Permission denied'' \<and>
   \<not> (str_contains ''404'' ''403 Permission denied'' \<and>
      str_contains ''models/gemini-pro'' ''403 Permission denied'') \<and>
   story_history welcomed_session = PList [welcome_message] \<and>
   list_all well_formed_message [welcome_message] \<and>
   ''go north'' \<noteq> [] \<and>
   generate_gemini_response unused_str both_models refusing_provider ''any prompt''
       (temperature welcomed_session) (current_mode welcomed_session) =
     \<lparr>reply = ''AI (Gemini censored) API Error: Permission denied. '' @
              ''Check your GOOGLE_API_KEY and its permissions.'',
      provider_calls =
        [(GenerativeModel ''gemini-1.5-flash-latest'' BLOCK_MEDIUM_AND_ABOVE, ''any prompt'',
          PFloat 0.7)],
      errors_shown = []\<rparr> \<and>
   snd (submit_turn example_upper unused_str both_models refusing_provider (Some ''go north'') welcomed_session) =
     welcomed_session\<lparr>story_history := PList
       [welcome_message,
        message ''user'' ''go north'',
        message ''ai'' (''AI (Gemini censored) API Error: Permission denied. '' @
                       ''Check your GOOGLE_API_KEY and its permissions.'')]\<rparr>"
proof -
  have m: "selected_model both_models (current_mode welcomed_session) =
      Some (GenerativeModel ''gemini-1.5-flash-latest'' BLOCK_MEDIUM_AND_ABOVE)"
    by (simp add: selected_model_def both_models_def configure_gemini_def welcomed_session_def
        initial_session_def)
  have r: "refusing_provider (GenerativeModel ''gemini-1.5-flash-latest'' BLOCK_MEDIUM_AND_ABOVE)
      prompt (temperature welcomed_session) = Raises ''403 Permission denied''" for prompt
    by (simp add: refusing_provider_def)
  have c: "str_contains ''403'' ''403 Permission denied''"
    by simp
  have n: "\<not> (str_contains ''404'' ''403 Permission denied'' \<and>
      str_contains ''models/gemini-pro'' ''403 Permission denied'')"
    by simp
  have h: "story_history welcomed_session = PList [welcome_message]"
    by (simp add: welcomed_session_def)
  have w: "list_all well_formed_message [welcome_message]"
    by (simp add: welcome_message_def message_def)
  have p: "''go north'' \<noteq> []"
    by simp
  have f: "py_format unused_str (current_mode welcomed_session) = ''censored''"
    and t: "temperature welcomed_session = PFloat 0.7"
    by (simp_all add: welcomed_session_def initial_session_def)
  show ?thesis
    using forbidden_reply_appended
        [where generate_content = refusing_provider and str_of = unused_str
           and upper = example_upper, OF m r c n h w p]
      m c n h w
    by (simp add: f t)
qed

text \<open>
  Where the claim as written fails. A refusal whose text also mentions "404" and
  "models/gemini-pro" is reported as a missing model, not as a denied permission; and
  after a refused generation the log of the welcomed session holds two more turns, the
  second carrying the error text.
\<close>

theorem forbidden_reply_counterexample:
  "str_contains ''403'' ''403 Permission denied for models/gemini-pro (request 404)'' \<and>
   reply (generate_gemini_response unused_str both_models ambiguous_provider ''prompt''
            (PFloat 0.7) (PStr ''censored'')) =
     ''AI (Gemini censored) API Error: Model 'gemini-pro' not found or accessible. '' @
     ''Ensure Generative Language API is enabled in your Google Cloud Project '' @
     ''and your GOOGLE_API_KEY is correct and has the necessary permissions.'' \<and>
   story_history
     (snd (submit_turn example_upper unused_str both_models refusing_provider (Some ''go north'')
             welcomed_session)) =
     PList [welcome_message,
            message ''user'' ''go north'',
            message ''ai'' (''AI (Gemini censored) API Error: Permission denied. '' @
                           ''Check your GOOGLE_API_KEY and its permissions.'')]"
proof -
  have a: "str_contains ''403'' ''403 Permission denied for models/gemini-pro (request 404)''"
    by simp
  have b: "reply (generate_gemini_response unused_str both_models ambiguous_provider ''prompt''
            (PFloat 0.7) (PStr ''censored'')) =
     ''AI (Gemini censored) API Error: Model 'gemini-pro' not found or accessible. '' @
     ''Ensure Generative Language API is enabled in your Google Cloud Project '' @
     ''and your GOOGLE_API_KEY is correct and has the necessary permissions.''"
    by (simp add: generate_gemini_response_def selected_model_def both_models_def
        configure_gemini_def ambiguous_provider_def on_exception_def)
  have c: "story_history
     (snd (submit_turn example_upper unused_str both_models refusing_provider (Some ''go north'')
             welcomed_session)) =
     PList [welcome_message,
            message ''user'' ''go north'',
            message ''ai'' (''AI (Gemini censored) API Error: Permission denied. '' @
                           ''Check your GOOGLE_API_KEY and its permissions.'')]"
    by (simp add: submit_turn_def welcomed_session_def initial_session_def full_context_def
        py_slice_from_def context_line_def welcome_message_def message_def example_upper_user
        example_upper_ai generate_gemini_response_def selected_model_def both_models_def
        configure_gemini_def refusing_provider_def on_exception_def)
  from a b c show ?thesis by blast
qed

section \<open>Settings values are not validated\<close>

text \<open>
  Claim C4, as the program has it. The session has no validating setter. A settings
  value that arrives through import is stored as it is: for every document with both
  top-level keys whose settings object carries a value for the mode, the temperature or
  the tone, the import succeeds and the field takes that value, valid or not; nothing
  is rejected and the prior value is not kept. On the next render the mode box is given
  position 1, the uncensored entry, for every mode other than "censored", and the tone
  box's index lookup raises \<^verbatim>\<open>ValueError\<close> for a tone outside its six entries.
\<close>

theorem import_does_not_validate:
  assumes "map_of doc ''history'' = Some h" and "map_of doc ''settings'' = Some (PDict s)"
  shows "fst (import_data st (PDict doc)) = ImportSuccess
    \<and> (\<forall>v. map_of s ''current_mode'' = Some v \<longrightarrow>
           current_mode (snd (import_data st (PDict doc))) = v)
    \<and> (\<forall>v. map_of s ''temperature'' = Some v \<longrightarrow>
           temperature (snd (import_data st (PDict doc))) = v)
    \<and> (\<forall>v. map_of s ''tone'' = Some v \<longrightarrow>
           tone (snd (import_data st (PDict doc))) = v)
    \<and> (current_mode (snd (import_data st (PDict doc))) \<noteq> PStr ''censored'' \<longrightarrow>
           mode_selector_index (snd (import_data st (PDict doc))) = 1)
    \<and> (tone (snd (import_data st (PDict doc))) \<notin> set tone_options \<longrightarrow>
           tone_selector_index (snd (import_data st (PDict doc))) = Inl ValueError)"
  by (simp add: import_data_object [OF assms] mode_selector_index_def tone_selector_index_def
      list_index_absent)

text \<open>
  A document whose settings are the mode "foo", the temperature -0.1 and the tone
  "Unknown", imported into a fresh session.
\<close>

theorem import_does_not_validate_witness:
  "map_of [(''history'', PList [welcome_message]),
           (''settings'', PDict [(''current_mode'', PStr ''foo''),
                                 (''temperature'', PFloat (- 0.1)),
                                 (''tone'', PStr ''Unknown'')])] ''history'' =
     Some (PList [welcome_message]) \<and>
   map_of [(''history'', PList [welcome_message]),
           (''settings'', PDict [(''current_mode'', PStr ''foo''),
                                 (''temperature'', PFloat (- 0.1)),
                                 (''tone'', PStr ''Unknown'')])] ''settings'' =
     Some (PDict [(''current_mode'', PStr ''foo''),
                  (''temperature'', PFloat (- 0.1)),
                  (''tone'', PStr ''Unknown'')]) \<and>
   map_of [(''current_mode'', PStr ''foo''), (''temperature'', PFloat (- 0.1)),
           (''tone'', PStr ''Unknown'')] ''current_mode'' = Some (PStr ''foo'') \<and>
   map_of [(''current_mode'', PStr ''foo''), (''temperature'', PFloat (- 0.1)),
           (''tone'', PStr ''Unknown'')] ''temperature'' = Some (PFloat (- 0.1)) \<and>
   map_of [(''current_mode'', PStr ''foo''), (''temperature'', PFloat (- 0.1)),
           (''tone'', PStr ''Unknown'')] ''tone'' = Some (PStr ''Unknown'') \<and>
   PStr ''foo'' \<noteq> PStr ''censored'' \<and>
   PStr ''Unknown'' \<notin> set tone_options \<and>
   import_data (initial_session ''u1'')
     (PDict [(''history'', PList [welcome_message]),
             (''settings'', PDict [(''current_mode'', PStr ''foo''),
                                   (''temperature'', PFloat (- 0.1)),
                                   (''tone'', PStr ''Unknown'')])]) =
     (ImportSuccess,
      \<lparr>story_history = PList [welcome_message], current_mode = PStr ''foo'',
       temperature = PFloat (- 0.1), tone = PStr ''Unknown'', user_id = ''u1''\<rparr>) \<and>
   mode_selector_index
     \<lparr>story_history = PList [welcome_message], current_mode = PStr ''foo'',
      temperature = PFloat (- 0.1), tone = PStr ''Unknown'', user_id = ''u1''\<rparr> = 1 \<and>
   tone_selector_index
     \<lparr>story_history = PList [welcome_message], current_mode = PStr ''foo'',
      temperature = PFloat (- 0.1), tone = PStr ''Unknown'', user_id = ''u1''\<rparr> = Inl ValueError"
proof -
  have i: "import_data (initial_session ''u1'')
     (PDict [(''history'', PList [welcome_message]),
             (''settings'', PDict [(''current_mode'', PStr ''foo''),
                                   (''temperature'', PFloat (- 0.1)),
                                   (''tone'', PStr ''Unknown'')])]) =
     (ImportSuccess,
      \<lparr>story_history = PList [welcome_message], current_mode = PStr ''foo'',
       temperature = PFloat (- 0.1), tone = PStr ''Unknown'', user_id = ''u1''\<rparr>)"
    by (simp add: import_data_object initial_session_def)
  have o: "PStr ''Unknown'' \<notin> set tone_options"
    by (simp add: tone_options_def)
  show ?thesis
    using import_does_not_validate
      [of "[(''history'', PList [welcome_message]),
            (''settings'', PDict [(''current_mode'', PStr ''foo''),
                                  (''temperature'', PFloat (- 0.1)),
                                  (''tone'', PStr ''Unknown'')])]"
          "PList [welcome_message]"
          "[(''current_mode'', PStr ''foo''), (''temperature'', PFloat (- 0.1)),
            (''tone'', PStr ''Unknown'')]"
          "initial_session ''u1''"]
      o
    by (simp add: i)
qed

text \<open>
  Where the claim as written fails: the mode "foo", the temperature 1.5 and the tone
  "Unknown" replace the valid defaults of a fresh session, and the import reports
  success.
\<close>

theorem import_stores_invalid_settings:
  "import_data (initial_session ''u1'')
     (PDict [(''history'', PList []),
             (''settings'', PDict [(''current_mode'', PStr ''foo''),
                                   (''temperature'', PFloat 1.5),
                                   (''tone'', PStr ''Unknown'')])]) =
   (ImportSuccess,
    \<lparr>story_history = PList [], current_mode = PStr ''foo'', temperature = PFloat 1.5,
     tone = PStr ''Unknown'', user_id = ''u1''\<rparr>)"
  by (simp add: import_data_object initial_session_def)

section \<open>Import of a partial settings object\<close>

text \<open>
  Claim C5. For every document that has both top-level keys and whose settings value is
  an object, the import succeeds; the history is replaced by the document's, and each
  of the three settings takes the document's value when the object has the field and
  keeps the session's current value when it has not. No default is involved.
\<close>

theorem import_partial_settings:
  assumes "map_of doc ''history'' = Some h" and "map_of doc ''settings'' = Some (PDict s)"
  shows "import_data st (PDict doc) =
    (ImportSuccess,
     st\<lparr>story_history := h,
        current_mode := (case map_of s ''current_mode'' of None \<Rightarrow> current_mode st | Some v \<Rightarrow> v),
        temperature := (case map_of s ''temperature'' of None \<Rightarrow> temperature st | Some v \<Rightarrow> v),
        tone := (case map_of s ''tone'' of None \<Rightarrow> tone st | Some v \<Rightarrow> v)\<rparr>)"
  using assms by (rule import_data_object)

text \<open>
  The specification's example: a settings object with only the temperature 0.9,
  imported while the mode is uncensored and the tone Horror.
\<close>

theorem import_partial_settings_witness:
  "map_of [(''history'', PList [message ''user'' ''hello'']),
           (''settings'', PDict [(''temperature'', PFloat 0.9)])] ''history'' =
     Some (PList [message ''user'' ''hello'']) \<and>
   map_of [(''history'', PList [message ''user'' ''hello'']),
           (''settings'', PDict [(''temperature'', PFloat 0.9)])] ''settings'' =
     Some (PDict [(''temperature'', PFloat 0.9)]) \<and>
   import_data
     \<lparr>story_history = PList [welcome_message], current_mode = PStr ''uncensored'',
      temperature = PFloat 0.7, tone = PStr ''Horror'', user_id = ''u1''\<rparr>
     (PDict [(''history'', PList [message ''user'' ''hello'']),
             (''settings'', PDict [(''temperature'', PFloat 0.9)])]) =
   (ImportSuccess,
    \<lparr>story_history = PList [message ''user'' ''hello''], current_mode = PStr ''uncensored'',
     temperature = PFloat 0.9, tone = PStr ''Horror'', user_id = ''u1''\<rparr>)"
  using import_partial_settings
    [of "[(''history'', PList [message ''user'' ''hello'']),
          (''settings'', PDict [(''temperature'', PFloat 0.9)])]"
        "PList [message ''user'' ''hello'']" "[(''temperature'', PFloat 0.9)]"
        "\<lparr>story_history = PList [welcome_message], current_mode = PStr ''uncensored'',
          temperature = PFloat 0.7, tone = PStr ''Horror'', user_id = ''u1''\<rparr>"]
  by simp

section \<open>Failures of the import\<close>




section \<open>Generation without a configured model\<close>

text \<open>
  Claim C7. When no model instance exists for the requested mode,
  \<^verbatim>\<open>generate_gemini_response\<close> returns the not-configured error at once, without any
  provider call. No instance exists for any mode when the API key is absent, or when
  the client library rejected the configuration.
\<close>

theorem generate_not_configured:
  "(selected_model models mode = None \<longrightarrow>
      generate_gemini_response str_of models generate_content prompt temperature_v mode =
        \<lparr>reply = ''Error: Gemini API for '' @ quoted (py_format str_of mode) @
                 '' mode is not configured. Check your GOOGLE_API_KEY.'',
         provider_calls = [], errors_shown = []\<rparr>)
   \<and> selected_model (configure_gemini None configured) mode = None
   \<and> selected_model (configure_gemini GOOGLE_API_KEY False) mode = None"
  by (simp add: generate_gemini_response_def selected_model_def configure_gemini_def)

text \<open>No API key, uncensored mode: the provider, which would refuse, is never called.\<close>

theorem generate_not_configured_witness:
  "selected_model (configure_gemini None True) (PStr ''uncensored'') = None \<and>
   generate_gemini_response unused_str (configure_gemini None True) refusing_provider
       ''prompt'' (PFloat 0.7) (PStr ''uncensored'') =
     \<lparr>reply = ''Error: Gemini API for 'uncensored' mode is not configured. '' @
              ''Check your GOOGLE_API_KEY.'',
      provider_calls = [], errors_shown = []\<rparr>"
proof -
  have s: "selected_model (configure_gemini None True) (PStr ''uncensored'') = None"
    by (simp add: selected_model_def configure_gemini_def)
  show ?thesis
    using s generate_not_configured
      [of "configure_gemini None True" "PStr ''uncensored''" unused_str refusing_provider
          "''prompt''" "PFloat 0.7"]
    by (simp add: quoted_def)
qed

section \<open>Loading when nothing was saved\<close>

text \<open>
  Claim C8, as the program has it. With the store reachable, a session identifier
  present and no document stored for it, \<^verbatim>\<open>load_story_from_firestore\<close> makes one
  read, returns \<^verbatim>\<open>False\<close>, displays the information that no saved session was
  found, and leaves the session state unchanged. When the backend fails it returns the
  same \<^verbatim>\<open>False\<close>, again with the session unchanged, and displays the error
  instead: the two outcomes differ in what the user is shown, not in what the caller
  receives.
\<close>

theorem load_without_record:
  assumes "failure fs = None" and "user_id st \<noteq> []" and "documents fs (user_id st) = None"
  shows "load_story_from_firestore (Some fs) st =
           (False, NoSavedSession, st,
            Some (fs\<lparr>requests := requests fs @ [GetRequest (user_id st)]\<rparr>))
    \<and> (\<forall>e. load_story_from_firestore (Some (fs\<lparr>failure := Some e\<rparr>)) st =
           (False, LoadError e, st,
            Some (fs\<lparr>failure := Some e, requests := requests fs @ [GetRequest (user_id st)]\<rparr>)))"
  using assms by (simp add: load_story_from_firestore_def document_get_def Let_def)

theorem load_without_record_witness:
  "failure empty_store = None \<and> user_id welcomed_session \<noteq> [] \<and>
   documents empty_store (user_id welcomed_session) = None \<and>
   load_story_from_firestore (Some empty_store) welcomed_session =
     (False, NoSavedSession, welcomed_session,
      Some (empty_store\<lparr>requests := [GetRequest ''u1'']\<rparr>)) \<and>
   load_story_from_firestore (Some unreachable_store) welcomed_session =
     (False, LoadError ''503 unavailable'', welcomed_session,
      Some (unreachable_store\<lparr>requests := [GetRequest ''u1'']\<rparr>))"
proof -
  have a: "failure empty_store = None"
    by (simp add: empty_store_def)
  have b: "user_id welcomed_session \<noteq> []"
    by (simp add: welcomed_session_def initial_session_def)
  have c: "documents empty_store (user_id welcomed_session) = None"
    by (simp add: empty_store_def)
  have u: "user_id welcomed_session = ''u1''" and r: "requests empty_store = []"
    by (simp_all add: welcomed_session_def initial_session_def empty_store_def)
  show ?thesis
    using load_without_record [OF a b c] a b c
    by (simp add: u r unreachable_store_def)
qed

text \<open>
  Where the claim as written fails: the value returned when nothing is stored is the
  value returned when the backend cannot be reached, and when no store is configured.
\<close>

theorem load_results_coincide:
  "fst (load_story_from_firestore (Some empty_store) welcomed_session) =
     fst (load_story_from_firestore (Some unreachable_store) welcomed_session) \<and>
   fst (load_story_from_firestore (Some empty_store) welcomed_session) =
     fst (load_story_from_firestore None welcomed_session)"
  by (simp add: load_story_from_firestore_def document_get_def Let_def empty_store_def
      unreachable_store_def welcomed_session_def initial_session_def)

section \<open>Saving is a merge-write\<close>

text \<open>
  Claim C9. A save of a session that has an identifier sends the store exactly one
  request, a set with the merge flag, and no read. The data it sends carries the
  sentinel \<^verbatim>\<open>SERVER_TIMESTAMP\<close> under \<^verbatim>\<open>timestamp\<close>, not a time of the caller's.
  When the backend accepts the write, the stored document afterwards has the session's
  history, mode, temperature and tone, the server's time as its timestamp, and every
  other field as before; the documents of other sessions are untouched. When the
  backend fails, the save returns \<^verbatim>\<open>False\<close> and no document changes.
\<close>

theorem save_is_merge_write:
  assumes "user_id st \<noteq> []"
  shows "\<exists>fs'.
      snd (snd (save_story_to_firestore (Some fs) st)) = Some fs'
    \<and> requests fs' = requests fs @ [SetRequest (user_id st) (session_data st) True]
    \<and> map_of (session_data st) ''timestamp'' = Some SERVER_TIMESTAMP
    \<and> (failure fs = None \<longrightarrow>
          save_story_to_firestore (Some fs) st = (True, SessionSaved, Some fs')
        \<and> (\<forall>k. k \<notin> {''history'', ''current_mode'', ''temperature'', ''tone'', ''timestamp''} \<longrightarrow>
              stored fs' (user_id st) k = stored fs (user_id st) k)
        \<and> stored fs' (user_id st) ''history'' = Some (story_history st)
        \<and> stored fs' (user_id st) ''current_mode'' = Some (current_mode st)
        \<and> stored fs' (user_id st) ''temperature'' = Some (temperature st)
        \<and> stored fs' (user_id st) ''tone'' = Some (tone st)
        \<and> stored fs' (user_id st) ''timestamp'' = Some (PTimestamp (server_time fs))
        \<and> (\<forall>other. other \<noteq> user_id st \<longrightarrow> documents fs' other = documents fs other))
    \<and> (failure fs \<noteq> None \<longrightarrow>
          fst (save_story_to_firestore (Some fs) st) = False \<and> documents fs' = documents fs)"
proof (cases "failure fs")
  case None
  with assms show ?thesis
    by (simp add: save_story_to_firestore_def document_set_def Let_def stored_def
        written_fields_session_data map_add_def)
       (simp add: session_data_def)
next
  case (Some e)
  with assms show ?thesis
    by (simp add: save_story_to_firestore_def document_set_def Let_def)
       (simp add: session_data_def)
qed

text \<open>
  A save of the welcomed session over a stored document that has a \<^verbatim>\<open>notes\<close> field
  and the tone Horror, and a save against a store that cannot be reached.
\<close>

theorem save_is_merge_write_witness:
  "user_id welcomed_session \<noteq> [] \<and>
   failure annotated_store = None \<and>
   failure unreachable_store \<noteq> None \<and>
   ''notes'' \<notin> {''history'', ''current_mode'', ''temperature'', ''tone'', ''timestamp''} \<and>
   ''u2'' \<noteq> user_id welcomed_session \<and>
   fst (save_story_to_firestore (Some annotated_store) welcomed_session) = True \<and>
   requests (the (snd (snd (save_story_to_firestore (Some annotated_store) welcomed_session)))) =
     [SetRequest ''u1'' (session_data welcomed_session) True] \<and>
   stored (the (snd (snd (save_story_to_firestore (Some annotated_store) welcomed_session))))
     ''u1'' ''notes'' = Some (PStr ''keep'') \<and>
   stored (the (snd (snd (save_story_to_firestore (Some annotated_store) welcomed_session))))
     ''u1'' ''tone'' = Some (PStr ''Fantasy'') \<and>
   stored (the (snd (snd (save_story_to_firestore (Some annotated_store) welcomed_session))))
     ''u1'' ''timestamp'' = Some (PTimestamp 100) \<and>
   documents (the (snd (snd (save_story_to_firestore (Some annotated_store) welcomed_session))))
     ''u2'' = documents annotated_store ''u2'' \<and>
   fst (save_story_to_firestore (Some unreachable_store) welcomed_session) = False"
proof -
  have u: "user_id welcomed_session \<noteq> []"
    by (simp add: welcomed_session_def initial_session_def)
  have v: "user_id welcomed_session = ''u1''"
    by (simp add: welcomed_session_def initial_session_def)
  have a: "failure annotated_store = None" and b: "failure unreachable_store \<noteq> None"
    and r: "requests annotated_store = []" and t: "server_time annotated_store = 100"
    and n: "stored annotated_store ''u1'' ''notes'' = Some (PStr ''keep'')"
    by (simp_all add: annotated_store_def unreachable_store_def empty_store_def stored_def)
  have tn: "tone welcomed_session = PStr ''Fantasy''"
    by (simp add: welcomed_session_def initial_session_def)
  from save_is_merge_write [OF u, of annotated_store] a obtain fs' where
    s: "save_story_to_firestore (Some annotated_store) welcomed_session =
          (True, SessionSaved, Some fs')"
    and q: "requests fs' =
          requests annotated_store @
          [SetRequest (user_id welcomed_session) (session_data welcomed_session) True]"
    and k: "\<forall>k. k \<notin> {''history'', ''current_mode'', ''temperature'', ''tone'', ''timestamp''} \<longrightarrow>
              stored fs' (user_id welcomed_session) k =
              stored annotated_store (user_id welcomed_session) k"
    and tone': "stored fs' (user_id welcomed_session) ''tone'' = Some (tone welcomed_session)"
    and time': "stored fs' (user_id welcomed_session) ''timestamp'' =
          Some (PTimestamp (server_time annotated_store))"
    and o: "\<forall>other. other \<noteq> user_id welcomed_session \<longrightarrow>
              documents fs' other = documents annotated_store other"
    by blast
  from k have k': "stored fs' ''u1'' ''notes'' = Some (PStr ''keep'')"
    by (simp add: v n)
  from o have o': "documents fs' ''u2'' = documents annotated_store ''u2''"
    by (simp add: v)
  from save_is_merge_write [OF u, of unreachable_store] b
  have d: "fst (save_story_to_firestore (Some unreachable_store) welcomed_session) = False"
    by blast
  show ?thesis
    using u a b d k' o' q tone' time' by (simp add: s v r t tn)
qed

section \<open>A submitted turn adds two turns\<close>

text \<open>
  Claim C10, as the program has it. When the chat input delivers a non-empty prompt and
  the history is a list of messages, each a dictionary with a string sender and a text,
  the submit action ends without an exception and leaves the history as the earlier
  turns, unchanged, followed by the user's turn and then exactly one AI turn. The text
  of the AI turn is the string \<^verbatim>\<open>generate_gemini_response\<close> returned for the context
  built from the history with the user's turn: the not-configured message when no model
  is selected; the provider's text when it is non-empty; the block message with the
  reason when there is no text but a block reason; the empty-response message when
  there is neither, or no response; and for a raised exception the model-not-found,
  permission-denied or server-error message, or else the general message with the
  exception's text.
\<close>

theorem submit_turn_appends_two:
  assumes "story_history st = PList msgs" and "list_all well_formed_message msgs" and "p \<noteq> []"
  shows "\<exists>ctx ai_text.
      full_context upper str_of (tone st) (msgs @ [message ''user'' p]) = Inr ctx
    \<and> submit_turn upper str_of models generate_content (Some p) st =
        (None, st\<lparr>story_history := PList (msgs @ [message ''user'' p, message ''ai'' ai_text])\<rparr>)
    \<and> ai_text = reply (generate_gemini_response str_of models generate_content ctx
                         (temperature st) (current_mode st))
    \<and> (selected_model models (current_mode st) = None \<longrightarrow>
          ai_text = ''Error: Gemini API for '' @ quoted (py_format str_of (current_mode st)) @
                    '' mode is not configured. Check your GOOGLE_API_KEY.'')
    \<and> (\<forall>model r t.
          selected_model models (current_mode st) = Some model \<longrightarrow>
          generate_content model ctx (temperature st) = Returns (Some r) \<longrightarrow>
          response_text r = Some t \<longrightarrow> t \<noteq> [] \<longrightarrow> ai_text = t)
    \<and> (\<forall>model r reason.
          selected_model models (current_mode st) = Some model \<longrightarrow>
          generate_content model ctx (temperature st) = Returns (Some r) \<longrightarrow>
          response_text r = None \<or> response_text r = Some [] \<longrightarrow>
          block_reason_name r = Some reason \<longrightarrow>
          ai_text = ''AI response was blocked by safety settings. Reason: '' @ reason)
    \<and> (\<forall>model r.
          selected_model models (current_mode st) = Some model \<longrightarrow>
          generate_content model ctx (temperature st) = Returns (Some r) \<longrightarrow>
          response_text r = None \<or> response_text r = Some [] \<longrightarrow>
          block_reason_name r = None \<longrightarrow>
          ai_text = ''AI returned an empty or unreadable response.'')
    \<and> (\<forall>model.
          selected_model models (current_mode st) = Some model \<longrightarrow>
          generate_content model ctx (temperature st) = Returns None \<longrightarrow>
          ai_text = ''AI returned an empty or unreadable response.'')
    \<and> (\<forall>model e.
          selected_model models (current_mode st) = Some model \<longrightarrow>
          generate_content model ctx (temperature st) = Raises e \<longrightarrow>
          ai_text =
            (if str_contains ''404'' e \<and> str_contains ''models/gemini-pro'' e then
               ''AI (Gemini '' @ py_format str_of (current_mode st) @
               '') API Error: Model 'gemini-pro' not found or accessible. '' @
               ''Ensure Generative Language API is enabled in your Google Cloud Project '' @
               ''and your GOOGLE_API_KEY is correct and has the necessary permissions.''
             else if str_contains ''403'' e then
               ''AI (Gemini '' @ py_format str_of (current_mode st) @
               '') API Error: Permission denied. Check your GOOGLE_API_KEY and its permissions.''
             else if str_contains ''500'' e then
               ''AI (Gemini '' @ py_format str_of (current_mode st) @
               '') API Error: Internal server error. Please try again later.''
             else ''AI (Gemini '' @ py_format str_of (current_mode st) @
                  '') encountered an error: '' @ e))"
proof -
  from assms(2) have "list_all well_formed_message (msgs @ [message ''user'' p])"
    by (simp add: well_formed_message_message)
  then obtain ctx where c: "full_context upper str_of (tone st) (msgs @ [message ''user'' p]) = Inr ctx"
    using full_context_well_formed by blast
  define ai_text where
    "ai_text = reply (generate_gemini_response str_of models generate_content ctx
                        (temperature st) (current_mode st))"
  have s: "submit_turn upper str_of models generate_content (Some p) st =
        (None, st\<lparr>story_history := PList (msgs @ [message ''user'' p, message ''ai'' ai_text])\<rparr>)"
    unfolding ai_text_def using assms(1,3) c by (rule submit_turn_step)
  have n: "selected_model models (current_mode st) = None \<longrightarrow>
          ai_text = ''Error: Gemini API for '' @ quoted (py_format str_of (current_mode st)) @
                    '' mode is not configured. Check your GOOGLE_API_KEY.''"
    unfolding ai_text_def by (simp add: generate_unconfigured)
  have t: "\<forall>model r t.
          selected_model models (current_mode st) = Some model \<longrightarrow>
          generate_content model ctx (temperature st) = Returns (Some r) \<longrightarrow>
          response_text r = Some t \<longrightarrow> t \<noteq> [] \<longrightarrow> ai_text = t"
    unfolding ai_text_def by (simp add: generate_text)
  have b: "\<forall>model r reason.
          selected_model models (current_mode st) = Some model \<longrightarrow>
          generate_content model ctx (temperature st) = Returns (Some r) \<longrightarrow>
          response_text r = None \<or> response_text r = Some [] \<longrightarrow>
          block_reason_name r = Some reason \<longrightarrow>
          ai_text = ''AI response was blocked by safety settings. Reason: '' @ reason"
    unfolding ai_text_def using generate_blocked by blast
  have e: "\<forall>model r.
          selected_model models (current_mode st) = Some model \<longrightarrow>
          generate_content model ctx (temperature st) = Returns (Some r) \<longrightarrow>
          response_text r = None \<or> response_text r = Some [] \<longrightarrow>
          block_reason_name r = None \<longrightarrow>
          ai_text = ''AI returned an empty or unreadable response.''"
    unfolding ai_text_def using generate_empty by blast
  have o: "\<forall>model.
          selected_model models (current_mode st) = Some model \<longrightarrow>
          generate_content model ctx (temperature st) = Returns None \<longrightarrow>
          ai_text = ''AI returned an empty or unreadable response.''"
    unfolding ai_text_def using generate_no_response by blast
  have x: "\<forall>model e.
          selected_model models (current_mode st) = Some model \<longrightarrow>
          generate_content model ctx (temperature st) = Raises e \<longrightarrow>
          ai_text =
            (if str_contains ''404'' e \<and> str_contains ''models/gemini-pro'' e then
               ''AI (Gemini '' @ py_format str_of (current_mode st) @
               '') API Error: Model 'gemini-pro' not found or accessible. '' @
               ''Ensure Generative Language API is enabled in your Google Cloud Project '' @
               ''and your GOOGLE_API_KEY is correct and has the necessary permissions.''
             else if str_contains ''403'' e then
               ''AI (Gemini '' @ py_format str_of (current_mode st) @
               '') API Error: Permission denied. Check your GOOGLE_API_KEY and its permissions.''
             else if str_contains ''500'' e then
               ''AI (Gemini '' @ py_format str_of (current_mode st) @
               '') API Error: Internal server error. Please try again later.''
             else ''AI (Gemini '' @ py_format str_of (current_mode st) @
                  '') encountered an error: '' @ e)"
    unfolding ai_text_def using generate_raised by blast
  show ?thesis
    by (rule exI [of _ ctx], rule exI [of _ ai_text])
       (intro conjI c s ai_text_def n t b e o x)
qed

text \<open>
  The welcomed session and the prompt "look around", once for each outcome of the
  generation: no API key, a provider that answers with a text, one that blocks, one
  that answers with nothing, and one that raises a server error.
\<close>

theorem submit_turn_appends_two_witness:
  "story_history welcomed_session = PList [welcome_message] \<and>
   list_all well_formed_message [welcome_message] \<and>
   ''look around'' \<noteq> [] \<and>
   selected_model (configure_gemini None True) (current_mode welcomed_session) = None \<and>
   selected_model both_models (current_mode welcomed_session) =
     Some (GenerativeModel ''gemini-1.5-flash-latest'' BLOCK_MEDIUM_AND_ABOVE) \<and>
   submit_turn example_upper unused_str (configure_gemini None True) refusing_provider
     (Some ''look around'') welcomed_session =
   (None,
    welcomed_session\<lparr>story_history := PList
      [welcome_message,
       message ''user'' ''look around'',
       message ''ai'' (''Error: Gemini API for 'censored' mode is not configured. '' @
                      ''Check your GOOGLE_API_KEY.'')]\<rparr>) \<and>
   submit_turn example_upper unused_str both_models storytelling_provider
     (Some ''look around'') welcomed_session =
   (None,
    welcomed_session\<lparr>story_history := PList
      [welcome_message,
       message ''user'' ''look around'',
       message ''ai'' ''You head north.'']\<rparr>) \<and>
   submit_turn example_upper unused_str both_models blocking_provider
     (Some ''look around'') welcomed_session =
   (None,
    welcomed_session\<lparr>story_history := PList
      [welcome_message,
       message ''user'' ''look around'',
       message ''ai'' ''AI response was blocked by safety settings. Reason: SAFETY'']\<rparr>) \<and>
   submit_turn example_upper unused_str both_models silent_provider
     (Some ''look around'') welcomed_session =
   (None,
    welcomed_session\<lparr>story_history := PList
      [welcome_message,
       message ''user'' ''look around'',
       message ''ai'' ''AI returned an empty or unreadable response.'']\<rparr>) \<and>
   submit_turn example_upper unused_str both_models failing_provider
     (Some ''look around'') welcomed_session =
   (None,
    welcomed_session\<lparr>story_history := PList
      [welcome_message,
       message ''user'' ''look around'',
       message ''ai'' (''AI (Gemini censored) API Error: Internal server error. '' @
                      ''Please try again later.'')]\<rparr>)"
proof -
  have h: "story_history welcomed_session = PList [welcome_message]"
    by (simp add: welcomed_session_def)
  have w: "list_all well_formed_message [welcome_message]"
    by (simp add: welcome_message_def message_def)
  have p: "''look around'' \<noteq> []"
    by simp
  have none: "selected_model (configure_gemini None True) (current_mode welcomed_session) = None"
    by (simp add: selected_model_def configure_gemini_def)
  have some: "selected_model both_models (current_mode welcomed_session) =
      Some (GenerativeModel ''gemini-1.5-flash-latest'' BLOCK_MEDIUM_AND_ABOVE)"
    by (simp add: selected_model_def both_models_def configure_gemini_def welcomed_session_def
        initial_session_def)
  have f: "py_format unused_str (current_mode welcomed_session) = ''censored''"
    by (simp add: welcomed_session_def initial_session_def)
  note inst = submit_turn_appends_two [OF h w p, where upper = example_upper and str_of = unused_str]
  have a1: "submit_turn example_upper unused_str (configure_gemini None True) refusing_provider
     (Some ''look around'') welcomed_session =
   (None,
    welcomed_session\<lparr>story_history := PList
      [welcome_message,
       message ''user'' ''look around'',
       message ''ai'' (''Error: Gemini API for 'censored' mode is not configured. '' @
                      ''Check your GOOGLE_API_KEY.'')]\<rparr>)"
    using inst [where models = "configure_gemini None True"
        and generate_content = refusing_provider] none
    by (auto simp: f quoted_def)
  have a2: "submit_turn example_upper unused_str both_models storytelling_provider
     (Some ''look around'') welcomed_session =
   (None,
    welcomed_session\<lparr>story_history := PList
      [welcome_message,
       message ''user'' ''look around'',
       message ''ai'' ''You head north.'']\<rparr>)"
    using inst [where models = both_models and generate_content = storytelling_provider] some
    by (auto simp: storytelling_provider_def)
  have a3: "submit_turn example_upper unused_str both_models blocking_provider
     (Some ''look around'') welcomed_session =
   (None,
    welcomed_session\<lparr>story_history := PList
      [welcome_message,
       message ''user'' ''look around'',
       message ''ai'' ''AI response was blocked by safety settings. Reason: SAFETY'']\<rparr>)"
    using inst [where models = both_models and generate_content = blocking_provider] some
    by (auto simp: blocking_provider_def)
  have a4: "submit_turn example_upper unused_str both_models silent_provider
     (Some ''look around'') welcomed_session =
   (None,
    welcomed_session\<lparr>story_history := PList
      [welcome_message,
       message ''user'' ''look around'',
       message ''ai'' ''AI returned an empty or unreadable response.'']\<rparr>)"
    using inst [where models = both_models and generate_content = silent_provider] some
    by (auto simp: silent_provider_def)
  have a5: "submit_turn example_upper unused_str both_models failing_provider
     (Some ''look around'') welcomed_session =
   (None,
    welcomed_session\<lparr>story_history := PList
      [welcome_message,
       message ''user'' ''look around'',
       message ''ai'' (''AI (Gemini censored) API Error: Internal server error. '' @
                      ''Please try again later.'')]\<rparr>)"
    using inst [where models = both_models and generate_content = failing_provider] some
    by (auto simp: failing_provider_def f)
  from h w p none some a1 a2 a3 a4 a5 show ?thesis
    by (intro conjI)
qed

text \<open>
  Where the claim as written fails. Importing a transcript whose history is an empty
  object succeeds and stores the object as the history; a prompt submitted on that
  session raises \<^verbatim>\<open>AttributeError\<close> at the first \<^verbatim>\<open>append\<close>, and no turn is
  added.
\<close>

theorem submit_turn_on_imported_object:
  "import_data welcomed_session (PDict [(''history'', PDict []), (''settings'', PDict [])]) =
     (ImportSuccess, emptied_session) \<and>
   submit_turn example_upper unused_str both_models storytelling_provider (Some ''look around'')
     emptied_session =
     (Some AttributeError, emptied_session)"
  by (simp add: import_data_object emptied_session_def submit_turn_def)

end
